theory Spec2Isabelle
  imports Complex_Main
begin

section \<open>JavaScript values of the request\<close>

text \<open>
  The task controller reads its inputs from \<open>req.body\<close> (a parsed JSON object),
  from \<open>req.query\<close> (strings) and from \<open>req.params.id\<close>. A field of the body is a
  JSON value, or \<open>undefined\<close> when the key is absent; \<open>JObj\<close> stands for any array or
  object, of which the controller only uses that it is truthy.
\<close>

datatype jsval = Undefined | Null | JBool bool | JNum rat | JStr string | JObj

text \<open>JavaScript's ToBoolean, as used by \<open>!x\<close>, \<open>x || y\<close> and \<open>x && y\<close>.\<close>

fun truthy :: "jsval \<Rightarrow> bool" where
  "truthy Undefined = False"
| "truthy Null = False"
| "truthy (JBool b) = b"
| "truthy (JNum n) = (n \<noteq> 0)"
| "truthy (JStr s) = (s \<noteq> [])"
| "truthy JObj = True"

text \<open>\<open>a || b\<close> on values.\<close>

definition jsor :: "jsval \<Rightarrow> jsval \<Rightarrow> jsval" where
  "jsor a b = (if truthy a then a else b)"

text \<open>\<open>a !== undefined ? a : b\<close>.\<close>

definition ifDefined :: "jsval \<Rightarrow> jsval \<Rightarrow> jsval" where
  "ifDefined a b = (if a \<noteq> Undefined then a else b)"

type_synonym body = "string \<Rightarrow> jsval"
type_synonym query = "string \<Rightarrow> string option"

text \<open>A query parameter is truthy when it is present and not the empty string.\<close>

definition qtruthy :: "string option \<Rightarrow> bool" where
  "qtruthy p = (case p of None \<Rightarrow> False | Some s \<Rightarrow> s \<noteq> [])"

subsection \<open>parseInt\<close>

text \<open>
  \<open>parseInt(string)\<close> with no radix: leading white space is skipped, one sign is read, a
  prefix \<open>0x\<close> or \<open>0X\<close> selects radix 16, and the longest run of digits of the radix is
  the number; with no digit the result is NaN, here \<open>None\<close>. An absent parameter is
  \<open>undefined\<close>, which ToString turns into the text \<open>undefined\<close>. The result is kept as
  an exact integer (a JavaScript number rounds beyond \<open>2 ^ 53\<close>), and only the ASCII white
  space characters are listed.
\<close>

definition isWhite :: "char \<Rightarrow> bool" where
  "isWhite c = (c \<in> set [CHR 0x20, CHR 0x09, CHR 0x0A, CHR 0x0B, CHR 0x0C, CHR 0x0D])"

definition digitVal :: "char \<Rightarrow> nat option" where
  "digitVal = map_of
     [(CHR ''0'', 0), (CHR ''1'', 1), (CHR ''2'', 2), (CHR ''3'', 3), (CHR ''4'', 4),
      (CHR ''5'', 5), (CHR ''6'', 6), (CHR ''7'', 7), (CHR ''8'', 8), (CHR ''9'', 9),
      (CHR ''a'', 10), (CHR ''b'', 11), (CHR ''c'', 12), (CHR ''d'', 13), (CHR ''e'', 14),
      (CHR ''f'', 15), (CHR ''A'', 10), (CHR ''B'', 11), (CHR ''C'', 12), (CHR ''D'', 13),
      (CHR ''E'', 14), (CHR ''F'', 15)]"

definition isDigit :: "nat \<Rightarrow> char \<Rightarrow> bool" where
  "isDigit r c = (case digitVal c of None \<Rightarrow> False | Some d \<Rightarrow> d < r)"

definition digitsValue :: "nat \<Rightarrow> string \<Rightarrow> nat" where
  "digitsValue r z = foldl (\<lambda>a c. a * r + (case digitVal c of None \<Rightarrow> 0 | Some d \<Rightarrow> d)) 0 z"

definition parseInt :: "string \<Rightarrow> int option" where
  "parseInt inp =
     (let s = dropWhile isWhite inp;
          sign = (if take 1 s = ''-'' then - 1 else (1::int));
          s1 = (if take 1 s = ''+'' \<or> take 1 s = ''-'' then drop 1 s else s);
          hex = (take 2 s1 = ''0x'' \<or> take 2 s1 = ''0X'');
          r = (if hex then 16 else 10);
          s2 = (if hex then drop 2 s1 else s1);
          z = takeWhile (isDigit r) s2
      in if z = [] then None else Some (sign * int (digitsValue r z)))"

definition toStringParam :: "string option \<Rightarrow> string" where
  "toStringParam p = (case p of None \<Rightarrow> ''undefined'' | Some s \<Rightarrow> s)"

text \<open>\<open>parseInt(p) || d\<close>: NaN and 0 are falsy.\<close>

definition numOr :: "int option \<Rightarrow> int \<Rightarrow> int" where
  "numOr n d = (case n of None \<Rightarrow> d | Some v \<Rightarrow> if v = 0 then d else v)"

section \<open>Tasks and the task store\<close>

text \<open>
  A task document as the controller sees it. Identifiers of tasks and users are opaque and
  compared for equality only; \<open>req.params.id\<close> is taken as a well-formed identifier.
  Field values are kept as the request gave them. The store is the list of the documents
  of the collection, in insertion order.
\<close>

record task =
  tid :: nat
  user :: nat
  title :: jsval
  description :: jsval
  status :: jsval
  priority :: jsval
  dueDate :: jsval
  createdAt :: int
  updatedAt :: int

type_synonym store = "task list"

text \<open>What a handler can hand to the error middleware by throwing.\<close>

datatype thrown = Error string | ValidationFailed | StoreRejected

text \<open>
  The end of a handler: \<open>Sent c v\<close> is \<open>res.status(c).json(v)\<close> (200 when no status was
  set), \<open>Threw c e\<close> is a \<open>throw\<close> of \<open>e\<close> while the status of the response is \<open>c\<close>.
\<close>

datatype 'a outcome = Sent nat 'a | Threw nat thrown

subsection \<open>Store operations\<close>

definition Task_findById :: "store \<Rightarrow> nat \<Rightarrow> task option" where
  "Task_findById s i = find (\<lambda>t. tid t = i) s"

fun updateFirst :: "('a \<Rightarrow> bool) \<Rightarrow> ('a \<Rightarrow> 'a) \<Rightarrow> 'a list \<Rightarrow> 'a list" where
  "updateFirst p f [] = []"
| "updateFirst p f (x # xs) = (if p x then f x # xs else x # updateFirst p f xs)"

fun removeFirst :: "('a \<Rightarrow> bool) \<Rightarrow> 'a list \<Rightarrow> 'a list" where
  "removeFirst p [] = []"
| "removeFirst p (x # xs) = (if p x then xs else x # removeFirst p xs)"

text \<open>\<open>task.save()\<close> writes the document back under its \<open>_id\<close>.\<close>

definition Task_save :: "task \<Rightarrow> store \<Rightarrow> store" where
  "Task_save t s = updateFirst (\<lambda>d. tid d = tid t) (\<lambda>d. t) s"

definition Task_findByIdAndDelete :: "nat \<Rightarrow> store \<Rightarrow> store" where
  "Task_findByIdAndDelete i s = removeFirst (\<lambda>d. tid d = i) s"

text \<open>The object literal given to \<open>findByIdAndUpdate\<close>.\<close>

record upd =
  u_title :: jsval
  u_description :: jsval
  u_status :: jsval
  u_priority :: jsval
  u_dueDate :: jsval
  u_updatedAt :: int

definition applyUpd :: "upd \<Rightarrow> task \<Rightarrow> task" where
  "applyUpd u t = t\<lparr>title := u_title u, description := u_description u, status := u_status u,
     priority := u_priority u, dueDate := u_dueDate u, updatedAt := u_updatedAt u\<rparr>"

text \<open>
  \<open>findByIdAndUpdate(id, u, {new: true, runValidators: true})\<close>: the validators of the
  schema, which is declared in \<open>models/Task.js\<close>, are the parameter \<open>V\<close>. When they
  reject the update nothing is written; otherwise the first document with the id is
  updated and returned as it is after the update.
\<close>

definition Task_findByIdAndUpdate ::
  "(upd \<Rightarrow> bool) \<Rightarrow> nat \<Rightarrow> upd \<Rightarrow> store \<Rightarrow> thrown + (task option \<times> store)" where
  "Task_findByIdAndUpdate V i u s =
     (if \<not> V u then Inl ValidationFailed
      else let s' = updateFirst (\<lambda>d. tid d = i) (applyUpd u) s
           in Inr (Task_findById s' i, s'))"

text \<open>The fields the controller gives to \<open>Task.create\<close>.\<close>

record newTask =
  n_user :: nat
  n_title :: jsval
  n_description :: jsval
  n_priority :: jsval
  n_dueDate :: jsval

text \<open>
  Modelled from the spec: the schema of \<open>models/Task.js\<close> is not among the sources. A
  created task has \<open>status\<close> pending, and \<open>createdAt\<close> and \<open>updatedAt\<close> are set at
  creation; the identifier \<open>oid\<close> is assigned by the store and \<open>now\<close> is the clock.
\<close>

definition Task_create :: "newTask \<Rightarrow> int \<Rightarrow> nat \<Rightarrow> store \<Rightarrow> task \<times> store" where
  "Task_create n now oid s =
     (let t = \<lparr>tid = oid, user = n_user n, title = n_title n, description = n_description n,
                status = JStr ''pending'', priority = n_priority n, dueDate = n_dueDate n,
                createdAt = now, updatedAt = now\<rparr>
      in (t, s @ [t]))"

subsection \<open>Queries\<close>

text \<open>
  The filter object of \<open>getTasks\<close>: \<open>user\<close> is always there, \<open>$or\<close> (the search pattern,
  matched against title or description), \<open>status\<close> and \<open>priority\<close> are optional keys.
\<close>

record taskFilter =
  f_user :: nat
  f_or :: "string option"
  f_status :: "string option"
  f_priority :: "string option"

text \<open>
  Whether a document matches a filter. The case-insensitive regular expression match of
  the store is the parameter \<open>rx\<close>.
\<close>

definition matches :: "(string \<Rightarrow> jsval \<Rightarrow> bool) \<Rightarrow> taskFilter \<Rightarrow> task \<Rightarrow> bool" where
  "matches rx f t =
     (user t = f_user f
      \<and> (case f_or f of None \<Rightarrow> True | Some p \<Rightarrow> rx p (title t) \<or> rx p (description t))
      \<and> (case f_status f of None \<Rightarrow> True | Some v \<Rightarrow> status t = JStr v)
      \<and> (case f_priority f of None \<Rightarrow> True | Some v \<Rightarrow> priority t = JStr v))"

definition Task_countDocuments :: "(string \<Rightarrow> jsval \<Rightarrow> bool) \<Rightarrow> taskFilter \<Rightarrow> store \<Rightarrow> nat" where
  "Task_countDocuments rx f s = length (filter (matches rx f) s)"

text \<open>
  Sorting by one field, ascending for direction 1 and descending otherwise. How the store
  orders the values of a field is the parameter \<open>key\<close>.
\<close>

definition sortDocs :: "(string \<Rightarrow> task \<Rightarrow> int) \<Rightarrow> string \<times> int \<Rightarrow> task list \<Rightarrow> task list" where
  "sortDocs key srt ts =
     (if snd srt = 1 then sort_key (key (fst srt)) ts else rev (sort_key (key (fst srt)) ts))"

text \<open>
  \<open>limit(n)\<close> of the store: 0 is no limit, and a negative number limits to
  its absolute value.
\<close>

definition limitDocs :: "int \<Rightarrow> 'a list \<Rightarrow> 'a list" where
  "limitDocs n xs = (if n = 0 then xs else take (nat \<bar>n\<bar>) xs)"

text \<open>
  \<open>Task.find(filter).sort(sort).skip(skip).limit(limit)\<close>. The store refuses a negative
  skip, and the query then throws.
\<close>

definition Task_find ::
  "(string \<Rightarrow> jsval \<Rightarrow> bool) \<Rightarrow> (string \<Rightarrow> task \<Rightarrow> int) \<Rightarrow> taskFilter \<Rightarrow> string \<times> int \<Rightarrow> int \<Rightarrow> int
     \<Rightarrow> store \<Rightarrow> thrown + task list" where
  "Task_find rx key f srt skip limit s =
     (if skip < 0 then Inl StoreRejected
      else Inr (limitDocs limit (drop (nat skip) (sortDocs key srt (filter (matches rx f) s)))))"

text \<open>
  The aggregation of \<open>getTaskStats\<close>: the caller's documents grouped by \<open>status\<close>, one
  pair of the status and its count for each status that occurs.
\<close>

definition Task_aggregate :: "nat \<Rightarrow> store \<Rightarrow> (jsval \<times> nat) list" where
  "Task_aggregate u s =
     (let ts = filter (\<lambda>t. user t = u) s
      in map (\<lambda>k. (k, length (filter (\<lambda>t. status t = k) ts))) (remdups (map status ts)))"

section \<open>The task controller\<close>

subsection \<open>getTasks\<close>

definition pageOf :: "query \<Rightarrow> int" where
  "pageOf q = numOr (parseInt (toStringParam (q ''page''))) 1"

definition limitOf :: "query \<Rightarrow> int" where
  "limitOf q = numOr (parseInt (toStringParam (q ''limit''))) 10"

definition skipOf :: "query \<Rightarrow> int" where
  "skipOf q = (pageOf q - 1) * limitOf q"

definition buildFilter :: "nat \<Rightarrow> query \<Rightarrow> taskFilter" where
  "buildFilter caller q =
     \<lparr>f_user = caller,
      f_or = (if qtruthy (q ''search'') then q ''search'' else None),
      f_status = (if qtruthy (q ''status'') \<and> q ''status'' \<noteq> Some ''all''
                  then q ''status'' else None),
      f_priority = (if qtruthy (q ''priority'') \<and> q ''priority'' \<noteq> Some ''all''
                    then q ''priority'' else None)\<rparr>"

definition buildSort :: "query \<Rightarrow> string \<times> int" where
  "buildSort q =
     (if qtruthy (q ''sortBy'')
      then (toStringParam (q ''sortBy''), if q ''sortOrder'' = Some ''asc'' then 1 else - 1)
      else (''createdAt'', - 1))"

text \<open>\<open>Math.ceil(total / limit)\<close>, a division of numbers.\<close>

definition totalPagesOf :: "nat \<Rightarrow> int \<Rightarrow> int" where
  "totalPagesOf total' limit = \<lceil>real total' / real_of_int limit\<rceil>"

record listing =
  tasks :: "task list"
  currentPage :: int
  totalPages :: int
  totalTasks :: nat

definition getTasks ::
  "(string \<Rightarrow> jsval \<Rightarrow> bool) \<Rightarrow> (string \<Rightarrow> task \<Rightarrow> int) \<Rightarrow> store \<Rightarrow> nat \<Rightarrow> query \<Rightarrow> listing outcome" where
  "getTasks rx key s caller q =
     (let page = pageOf q;
          limit = limitOf q;
          skip = (page - 1) * limit;
          flt = buildFilter caller q;
          srt = buildSort q;
          total' = Task_countDocuments rx flt s
      in case Task_find rx key flt srt skip limit s of
           Inl e \<Rightarrow> Threw 200 e
         | Inr ts \<Rightarrow> Sent 200 \<lparr>tasks = ts, currentPage = page,
                                totalPages = totalPagesOf total' limit, totalTasks = total'\<rparr>)"

subsection \<open>getTask\<close>

definition getTask :: "store \<Rightarrow> nat \<Rightarrow> nat \<Rightarrow> task outcome" where
  "getTask s caller i =
     (case Task_findById s i of
        None \<Rightarrow> Threw 404 (Error ''Task not found'')
      | Some t \<Rightarrow>
          if user t \<noteq> caller then Threw 401 (Error ''Not authorized to access this task'')
          else Sent 200 t)"

subsection \<open>createTask\<close>

definition createTask :: "store \<Rightarrow> nat \<Rightarrow> body \<Rightarrow> int \<Rightarrow> nat \<Rightarrow> task outcome \<times> store" where
  "createTask s caller b now oid =
     (let ttl = b ''title''; dsc = b ''description''; pri = b ''priority''; due = b ''dueDate''
      in if \<not> truthy ttl then (Threw 400 (Error ''Please add a title''), s)
         else let (t, s') = Task_create \<lparr>n_user = caller, n_title = ttl, n_description = dsc,
                                           n_priority = pri, n_dueDate = due\<rparr> now oid s
              in (Sent 201 t, s'))"

subsection \<open>updateTask\<close>

definition updateDoc :: "body \<Rightarrow> task \<Rightarrow> int \<Rightarrow> upd" where
  "updateDoc b t now =
     \<lparr>u_title = jsor (b ''title'') (title t),
      u_description = ifDefined (b ''description'') (description t),
      u_status = jsor (b ''status'') (status t),
      u_priority = jsor (b ''priority'') (priority t),
      u_dueDate = ifDefined (b ''dueDate'') (dueDate t),
      u_updatedAt = now\<rparr>"

definition updateTask ::
  "(upd \<Rightarrow> bool) \<Rightarrow> store \<Rightarrow> nat \<Rightarrow> nat \<Rightarrow> body \<Rightarrow> int \<Rightarrow> task option outcome \<times> store" where
  "updateTask V s caller i b now =
     (case Task_findById s i of
        None \<Rightarrow> (Threw 404 (Error ''Task not found''), s)
      | Some t \<Rightarrow>
          if user t \<noteq> caller then (Threw 401 (Error ''Not authorized to update this task''), s)
          else (case Task_findByIdAndUpdate V i (updateDoc b t now) s of
                  Inl e \<Rightarrow> (Threw 200 e, s)
                | Inr (r, s') \<Rightarrow> (Sent 200 r, s')))"

subsection \<open>deleteTask\<close>

definition deleteTask :: "store \<Rightarrow> nat \<Rightarrow> nat \<Rightarrow> string outcome \<times> store" where
  "deleteTask s caller i =
     (case Task_findById s i of
        None \<Rightarrow> (Threw 404 (Error ''Task not found''), s)
      | Some t \<Rightarrow>
          if user t \<noteq> caller then (Threw 401 (Error ''Not authorized to delete this task''), s)
          else (Sent 200 ''Task removed'', Task_findByIdAndDelete i s))"

subsection \<open>toggleTaskStatus\<close>

definition toggleTaskStatus :: "store \<Rightarrow> nat \<Rightarrow> nat \<Rightarrow> int \<Rightarrow> task outcome \<times> store" where
  "toggleTaskStatus s caller i now =
     (case Task_findById s i of
        None \<Rightarrow> (Threw 404 (Error ''Task not found''), s)
      | Some t \<Rightarrow>
          if user t \<noteq> caller then (Threw 401 (Error ''Not authorized to update this task''), s)
          else let t1 = t\<lparr>status := (if status t = JStr ''pending'' then JStr ''completed''
                                      else JStr ''pending'')\<rparr>;
                   t2 = t1\<lparr>updatedAt := now\<rparr>
               in (Sent 200 t2, Task_save t2 s))"

subsection \<open>getTaskStats\<close>

record stats =
  total :: nat
  pending :: nat
  completed :: nat

text \<open>\<open>stats.find(s => s._id === k)?.count || 0\<close>.\<close>

definition countOf :: "(jsval \<times> nat) list \<Rightarrow> string \<Rightarrow> nat" where
  "countOf st k =
     (case find (\<lambda>g. fst g = JStr k) st of
        None \<Rightarrow> 0
      | Some g \<Rightarrow> if snd g \<noteq> 0 then snd g else 0)"

definition getTaskStats :: "store \<Rightarrow> nat \<Rightarrow> stats outcome" where
  "getTaskStats s caller =
     (let st = Task_aggregate caller s;
          totalTasks' = length (filter (\<lambda>t. user t = caller) s)
      in Sent 200 \<lparr>total = totalTasks', pending = countOf st ''pending'',
                    completed = countOf st ''completed''\<rparr>)"

section \<open>Sample data\<close>

text \<open>
  Two tasks of two users, a stand-in for the pattern match and for the order of the store,
  and some requests; they serve as concrete inputs.
\<close>

definition milkTask :: task where
  "milkTask = \<lparr>tid = 7, user = 1, title = JStr ''Buy milk'', description = Undefined,
                status = JStr ''pending'', priority = JStr ''high'', dueDate = Undefined,
                createdAt = 50, updatedAt = 50\<rparr>"

definition dogTask :: task where
  "dogTask = \<lparr>tid = 8, user = 2, title = JStr ''Walk dog'', description = JStr ''in the park'',
               status = JStr ''completed'', priority = JStr ''low'', dueDate = Undefined,
               createdAt = 60, updatedAt = 70\<rparr>"

definition sampleStore :: store where
  "sampleStore = [milkTask, dogTask]"

definition exactText :: "string \<Rightarrow> jsval \<Rightarrow> bool" where
  "exactText p v = (v = JStr p)"

definition byCreatedAt :: "string \<Rightarrow> task \<Rightarrow> int" where
  "byCreatedAt f t = createdAt t"

definition noQuery :: query where
  "noQuery = Map.empty"

definition negLimitQuery :: query where
  "negLimitQuery = [''page'' \<mapsto> ''2'', ''limit'' \<mapsto> ''-5'']"

definition farPageQuery :: query where
  "farPageQuery = [''page'' \<mapsto> ''3'', ''limit'' \<mapsto> ''20'', ''status'' \<mapsto> ''all'']"

definition zeroLimitQuery :: query where
  "zeroLimitQuery = [''page'' \<mapsto> ''abc'', ''limit'' \<mapsto> ''0'', ''status'' \<mapsto> ''pending'',
      ''priority'' \<mapsto> ''all'']"

definition emptyBody :: body where
  "emptyBody = (\<lambda>k. Undefined)"

definition clearBody :: body where
  "clearBody = emptyBody(''title'' := JStr [], ''description'' := JStr [], ''dueDate'' := Null,
      ''user'' := JNum 2)"

definition milkBody :: body where
  "milkBody = emptyBody(''title'' := JStr ''Buy milk'')"

definition anyUpdate :: "upd \<Rightarrow> bool" where
  "anyUpdate u = True"

section \<open>Properties of the store and of the helpers\<close>

lemma totalPagesOf_div: "totalPagesOf n l = - ((- int n) div l)"
  unfolding totalPagesOf_def using ceiling_divide_eq_div [of "int n" l] by simp

lemma numOr_nonzero: "d \<noteq> 0 \<Longrightarrow> numOr n d \<noteq> 0"
  by (simp add: numOr_def split: option.splits)

lemma findById_Some: "Task_findById s i = Some t \<Longrightarrow> tid t = i \<and> t \<in> set s"
  unfolding Task_findById_def by (induction s) (auto split: if_splits)

lemma set_sortDocs: "set (sortDocs key srt ts) = set ts"
  by (simp add: sortDocs_def)


lemma set_limitDocs: "set (limitDocs n xs) \<subseteq> set xs"
  by (auto simp: limitDocs_def dest: in_set_takeD)

lemma f_user_buildFilter: "f_user (buildFilter c q) = c"
  by (simp add: buildFilter_def)

lemma Task_find_subset:
  assumes "Task_find rx key f srt sk l s = Inr ts"
  shows "set ts \<subseteq> {t \<in> set s. matches rx f t}"
proof -
  from assms have ts: "ts = limitDocs l (drop (nat sk) (sortDocs key srt (filter (matches rx f) s)))"
    by (simp add: Task_find_def split: if_splits)
  have "set ts \<subseteq> set (drop (nat sk) (sortDocs key srt (filter (matches rx f) s)))"
    unfolding ts by (rule set_limitDocs)
  also have "\<dots> \<subseteq> set (sortDocs key srt (filter (matches rx f) s))"
    by (rule set_drop_subset)
  also have "\<dots> = {t \<in> set s. matches rx f t}"
    by (simp add: set_sortDocs)
  finally show ?thesis .
qed

lemma getTasks_unfold:
  "getTasks rx key s c q =
     (case Task_find rx key (buildFilter c q) (buildSort q) (skipOf q) (limitOf q) s of
        Inl e \<Rightarrow> Threw 200 e
      | Inr ts \<Rightarrow> Sent 200 \<lparr>tasks = ts, currentPage = pageOf q,
           totalPages = totalPagesOf (Task_countDocuments rx (buildFilter c q) s) (limitOf q),
           totalTasks = Task_countDocuments rx (buildFilter c q) s\<rparr>)"
  unfolding getTasks_def Let_def skipOf_def by (rule refl)

lemma getTasks_Sent:
  assumes "getTasks rx key s c q = Sent k r"
  shows "Task_find rx key (buildFilter c q) (buildSort q) (skipOf q) (limitOf q) s = Inr (tasks r)"
    and "totalTasks r = Task_countDocuments rx (buildFilter c q) s"
    and "totalPages r = totalPagesOf (totalTasks r) (limitOf q)"
    and "currentPage r = pageOf q" and "k = 200"
proof -
  let ?F = "Task_find rx key (buildFilter c q) (buildSort q) (skipOf q) (limitOf q) s"
  obtain ts where ts: "?F = Inr ts"
    using assms unfolding getTasks_unfold by (cases ?F) simp_all
  from assms have r: "r = \<lparr>tasks = ts, currentPage = pageOf q,
           totalPages = totalPagesOf (Task_countDocuments rx (buildFilter c q) s) (limitOf q),
           totalTasks = Task_countDocuments rx (buildFilter c q) s\<rparr>" and k: "k = 200"
    unfolding getTasks_unfold ts by simp_all
  show "?F = Inr (tasks r)" by (simp add: ts r)
  show "totalTasks r = Task_countDocuments rx (buildFilter c q) s" by (simp add: r)
  show "totalPages r = totalPagesOf (totalTasks r) (limitOf q)" by (simp add: r)
  show "currentPage r = pageOf q" by (simp add: r)
  show "k = 200" by (rule k)
qed


lemma parseInt_undefined: "parseInt ''undefined'' = None"
  by (simp add: parseInt_def isWhite_def isDigit_def digitVal_def)

lemma falsy_iff: "\<not> truthy v \<longleftrightarrow> v \<in> {Undefined, Null, JBool False, JNum 0, JStr []}"
  by (cases v) simp_all

lemma findById_updateFirst:
  assumes "\<And>d. tid d = i \<Longrightarrow> tid (f d) = i"
  shows "Task_findById (updateFirst (\<lambda>d. tid d = i) f s) j =
           (if j = i then map_option f (Task_findById s i) else Task_findById s j)"
  using assms unfolding Task_findById_def by (induction s) auto

lemma owners_updateFirst:
  assumes "\<And>d. user (f d) = user d" and "\<And>d. tid (f d) = tid d"
  shows "map (\<lambda>t. (tid t, user t)) (updateFirst p f s) = map (\<lambda>t. (tid t, user t)) s"
  using assms by (induction s) simp_all

lemma applyUpd_frame: "user (applyUpd u t) = user t" "tid (applyUpd u t) = tid t"
  "createdAt (applyUpd u t) = createdAt t"
  by (simp_all add: applyUpd_def)

lemma find_group:
  "find (\<lambda>g. fst g = K) (map (\<lambda>k. (k, f k)) ks) = (if K \<in> set ks then Some (K, f K) else None)"
  by (induction ks) simp_all

lemma countOf_aggregate:
  "countOf (Task_aggregate c s) k = length (filter (\<lambda>t. user t = c \<and> status t = JStr k) s)"
proof -
  let ?ts = "filter (\<lambda>t. user t = c) s"
  let ?n = "length (filter (\<lambda>t. status t = JStr k) ?ts)"
  have n: "?n = length (filter (\<lambda>t. user t = c \<and> status t = JStr k) s)"
    by (simp add: conj_commute)
  show ?thesis
  proof (cases "JStr k \<in> set (remdups (map status ?ts))")
    case True
    then have "countOf (Task_aggregate c s) k = ?n"
      unfolding countOf_def Task_aggregate_def Let_def find_group by simp
    with n show ?thesis by simp
  next
    case False
    then have nin: "JStr k \<notin> status ` set ?ts" by simp
    have "\<forall>t \<in> set ?ts. status t \<noteq> JStr k"
    proof
      fix t assume "t \<in> set ?ts"
      then have "status t \<in> status ` set ?ts" by (rule imageI)
      with nin show "status t \<noteq> JStr k" by auto
    qed
    then have "filter (\<lambda>t. status t = JStr k) ?ts = []"
      by (simp add: filter_empty_conv)
    then have z: "?n = 0" by simp
    from False have "countOf (Task_aggregate c s) k = 0"
      unfolding countOf_def Task_aggregate_def Let_def find_group by simp
    with z n show ?thesis by simp
  qed
qed

lemma length_two_statuses:
  assumes "\<forall>t \<in> set ts. status t = A \<or> status t = B" and "A \<noteq> B"
  shows "length ts = length (filter (\<lambda>t. status t = A) ts) + length (filter (\<lambda>t. status t = B) ts)"
  using assms by (induction ts) auto

lemma filter_user_status:
  "filter (\<lambda>t. status t = K) (filter (\<lambda>t. user t = c) s) = filter (\<lambda>t. user t = c \<and> status t = K) s"
  by (simp add: conj_commute)






lemma findById_save:
  assumes "tid t' = i"
  shows "Task_findById (Task_save t' s) i = map_option (\<lambda>d. t') (Task_findById s i)"
  unfolding Task_save_def using assms findById_updateFirst [of i "\<lambda>d. t'" s i] by simp

lemma toggle_owner:
  assumes "Task_findById s i = Some t" and "user t = c"
  shows "toggleTaskStatus s c i n =
    (Sent 200 (t\<lparr>status := (if status t = JStr ''pending'' then JStr ''completed'' else JStr ''pending''),
                 updatedAt := n\<rparr>),
     Task_save (t\<lparr>status := (if status t = JStr ''pending'' then JStr ''completed'' else JStr ''pending''),
                 updatedAt := n\<rparr>) s)"
  using assms by (simp add: toggleTaskStatus_def Let_def)

lemmas sample_defs = milkTask_def dogTask_def sampleStore_def exactText_def byCreatedAt_def
  noQuery_def negLimitQuery_def farPageQuery_def zeroLimitQuery_def emptyBody_def clearBody_def
  milkBody_def anyUpdate_def

lemmas parse_defs = parseInt_def isWhite_def isDigit_def digitVal_def digitsValue_def
  toStringParam_def numOr_def

lemmas list_defs = getTasks_unfold Task_find_def Task_countDocuments_def matches_def
  buildFilter_def buildSort_def qtruthy_def skipOf_def pageOf_def limitOf_def limitDocs_def
  sortDocs_def totalPagesOf_div

lemma f_status_buildFilter:
  "f_status (buildFilter c q) =
     (case q ''status'' of None \<Rightarrow> None
      | Some v \<Rightarrow> if v \<noteq> [] \<and> v \<noteq> ''all'' then Some v else None)"
  by (simp add: buildFilter_def qtruthy_def split: option.splits)

lemma f_priority_buildFilter:
  "f_priority (buildFilter c q) =
     (case q ''priority'' of None \<Rightarrow> None
      | Some v \<Rightarrow> if v \<noteq> [] \<and> v \<noteq> ''all'' then Some v else None)"
  by (simp add: buildFilter_def qtruthy_def split: option.splits)

lemma matches_status_free:
  assumes "f_status f = None"
  shows "matches rx f (t\<lparr>status := x\<rparr>) = matches rx f t"
  using assms by (simp add: matches_def split: option.splits)

lemma matches_priority_free:
  assumes "f_priority f = None"
  shows "matches rx f (t\<lparr>priority := x\<rparr>) = matches rx f t"
  using assms by (simp add: matches_def split: option.splits)

lemma pageOf_default: "parseInt (toStringParam (q ''page'')) \<in> {None, Some 0} \<Longrightarrow> pageOf q = 1"
  unfolding pageOf_def numOr_def by (cases "parseInt (toStringParam (q ''page''))") simp_all

lemma limitOf_default: "parseInt (toStringParam (q ''limit'')) \<in> {None, Some 0} \<Longrightarrow> limitOf q = 10"
  unfolding limitOf_def numOr_def by (cases "parseInt (toStringParam (q ''limit''))") simp_all

lemma limitOf_nonzero: "limitOf q \<noteq> 0"
  by (simp add: limitOf_def numOr_nonzero)

lemma absent_param: "q k = None \<Longrightarrow> parseInt (toStringParam (q k)) \<in> {None, Some 0}"
  by (simp add: toStringParam_def parseInt_undefined)

lemma sample_list:
  "getTasks exactText byCreatedAt sampleStore 1 noQuery
     = Sent 200 \<lparr>tasks = [milkTask], currentPage = 1, totalPages = 1, totalTasks = 1\<rparr>"
  by (simp add: list_defs sample_defs parse_defs)

lemma sample_findById:
  "Task_findById sampleStore 7 = Some milkTask" "Task_findById sampleStore 8 = Some dogTask"
  "Task_findById sampleStore 9 = None"
  by (simp_all add: Task_findById_def sample_defs)

lemma sample_update:
  "updateTask anyUpdate sampleStore 1 7 clearBody 99 =
     (Sent 200 (Some (milkTask\<lparr>description := JStr [], dueDate := Null, updatedAt := 99\<rparr>)),
      [milkTask\<lparr>description := JStr [], dueDate := Null, updatedAt := 99\<rparr>, dogTask])"
  by (simp add: updateTask_def Task_findByIdAndUpdate_def Task_findById_def updateDoc_def
      applyUpd_def jsor_def ifDefined_def sample_defs)

lemma sample_toggle:
  "toggleTaskStatus sampleStore 1 7 n =
     (Sent 200 (milkTask\<lparr>status := JStr ''completed'', updatedAt := n\<rparr>),
      [milkTask\<lparr>status := JStr ''completed'', updatedAt := n\<rparr>, dogTask])"
  "toggleTaskStatus [milkTask\<lparr>status := JStr ''completed'', updatedAt := n\<rparr>, dogTask] 1 7 m =
     (Sent 200 (milkTask\<lparr>updatedAt := m\<rparr>), [milkTask\<lparr>updatedAt := m\<rparr>, dogTask])"
  by (simp_all add: toggleTaskStatus_def Task_findById_def Task_save_def Let_def sample_defs)






section \<open>The claims\<close>

subsection \<open>Ownership scoping\<close>

text \<open>
  Claim C1. Ownership scoping: the filter of the list operation always carries
  \<open>user = caller\<close>, so for a task \<open>t\<close> owned by \<open>u\<close> and a caller \<open>v \<noteq> u\<close> no listing
  sent to \<open>v\<close> contains \<open>t\<close>, for every query and every store; and when \<open>v\<close> asks for
  \<open>t\<close> by its id, \<open>getTask\<close> does not answer with a filtered or empty result but throws
  with status 401.
\<close>

theorem ownership_scoping:
  assumes "user t = u" and "v \<noteq> u"
  shows "f_user (buildFilter v q) = v
       \<and> (\<forall>k r. getTasks rx key s v q = Sent k r \<longrightarrow> t \<notin> set (tasks r))
       \<and> (\<forall>i. Task_findById s i = Some t \<longrightarrow>
             getTask s v i = Threw 401 (Error ''Not authorized to access this task''))"
proof (intro conjI allI impI)
  show "f_user (buildFilter v q) = v" by (rule f_user_buildFilter)
next
  fix k r assume "getTasks rx key s v q = Sent k r"
  then have "set (tasks r) \<subseteq> {d \<in> set s. matches rx (buildFilter v q) d}"
    using getTasks_Sent(1) Task_find_subset by blast
  then have "\<forall>d \<in> set (tasks r). user d = v"
    by (auto simp: matches_def f_user_buildFilter)
  with assms show "t \<notin> set (tasks r)" by auto
next
  fix i assume "Task_findById s i = Some t"
  with assms show "getTask s v i = Threw 401 (Error ''Not authorized to access this task'')"
    by (simp add: getTask_def)
qed

theorem ownership_scoping_witness:
  "user dogTask = 2
 \<and> getTasks exactText byCreatedAt sampleStore 1 noQuery
     = Sent 200 \<lparr>tasks = [milkTask], currentPage = 1, totalPages = 1, totalTasks = 1\<rparr>
 \<and> dogTask \<notin> set [milkTask]
 \<and> Task_findById sampleStore 8 = Some dogTask
 \<and> getTask sampleStore 1 8 = Threw 401 (Error ''Not authorized to access this task'')"
proof -
  have u: "user dogTask = 2" by (simp add: dogTask_def)
  have ne: "(1::nat) \<noteq> 2" by simp
  have g: "getTasks exactText byCreatedAt sampleStore 1 noQuery
     = Sent 200 \<lparr>tasks = [milkTask], currentPage = 1, totalPages = 1, totalTasks = 1\<rparr>"
    by (simp add: list_defs sample_defs parse_defs)
  have f: "Task_findById sampleStore 8 = Some dogTask"
    by (simp add: Task_findById_def sample_defs)
  from ownership_scoping [OF u ne, where q = noQuery and rx = exactText and key = byCreatedAt
      and s = sampleStore] g f u
  show ?thesis by simp
qed

subsection \<open>Existence before ownership\<close>

text \<open>
  Claim C2. For get, update, delete and toggle on an id: when the store has no task with
  the id the handler throws \<open>Task not found\<close> with status 404, whoever the caller is, so
  the existence check comes before the ownership check; when the task exists and its
  owner is not the caller the handler throws with status 401. In both cases the store is
  left as it was.
\<close>

theorem existence_before_ownership:
  "(Task_findById s i = None \<longrightarrow>
      getTask s c i = Threw 404 (Error ''Task not found'')
    \<and> updateTask V s c i b now = (Threw 404 (Error ''Task not found''), s)
    \<and> deleteTask s c i = (Threw 404 (Error ''Task not found''), s)
    \<and> toggleTaskStatus s c i now = (Threw 404 (Error ''Task not found''), s))
 \<and> (\<forall>t. Task_findById s i = Some t \<and> user t \<noteq> c \<longrightarrow>
      getTask s c i = Threw 401 (Error ''Not authorized to access this task'')
    \<and> updateTask V s c i b now = (Threw 401 (Error ''Not authorized to update this task''), s)
    \<and> deleteTask s c i = (Threw 401 (Error ''Not authorized to delete this task''), s)
    \<and> toggleTaskStatus s c i now = (Threw 401 (Error ''Not authorized to update this task''), s))"
  by (simp add: getTask_def updateTask_def deleteTask_def toggleTaskStatus_def)

theorem existence_before_ownership_witness:
  "Task_findById sampleStore 9 = None
 \<and> getTask sampleStore 2 9 = Threw 404 (Error ''Task not found'')
 \<and> updateTask anyUpdate sampleStore 2 9 milkBody 99 = (Threw 404 (Error ''Task not found''), sampleStore)
 \<and> deleteTask sampleStore 2 9 = (Threw 404 (Error ''Task not found''), sampleStore)
 \<and> toggleTaskStatus sampleStore 2 9 99 = (Threw 404 (Error ''Task not found''), sampleStore)
 \<and> Task_findById sampleStore 7 = Some milkTask
 \<and> getTask sampleStore 2 7 = Threw 401 (Error ''Not authorized to access this task'')
 \<and> updateTask anyUpdate sampleStore 2 7 milkBody 99
      = (Threw 401 (Error ''Not authorized to update this task''), sampleStore)
 \<and> deleteTask sampleStore 2 7 = (Threw 401 (Error ''Not authorized to delete this task''), sampleStore)
 \<and> toggleTaskStatus sampleStore 2 7 99
      = (Threw 401 (Error ''Not authorized to update this task''), sampleStore)"
proof -
  have a: "Task_findById sampleStore 9 = None"
    by (simp add: Task_findById_def sample_defs)
  have b: "Task_findById sampleStore 7 = Some milkTask"
    by (simp add: Task_findById_def sample_defs)
  have c: "user milkTask \<noteq> 2" by (simp add: milkTask_def)
  from existence_before_ownership [of sampleStore 9 2 anyUpdate milkBody 99]
    existence_before_ownership [of sampleStore 7 2 anyUpdate milkBody 99] a b c
  show ?thesis by simp
qed

subsection \<open>Partial update\<close>

text \<open>
  Claim C3. An update by the owner that the validators accept sends the updated task and
  stores it. Field by field: \<open>title\<close>, \<open>status\<close> and \<open>priority\<close> keep their previous value
  when the supplied value is falsy (absent, \<open>null\<close>, the empty string, see \<open>falsy_iff\<close>) and
  take a truthy one; \<open>description\<close> and \<open>dueDate\<close> keep their previous value only when the
  key is absent (\<open>undefined\<close>) and take every supplied value, the empty string and \<open>null\<close>
  included; \<open>updatedAt\<close> becomes the clock reading. With none of the five fields supplied
  the task is the old one with \<open>updatedAt\<close> refreshed.
\<close>

theorem update_partial_semantics:
  assumes "Task_findById s i = Some t" and "user t = c" and "V (updateDoc b t now)"
  shows "\<exists>t' s'. updateTask V s c i b now = (Sent 200 (Some t'), s')
      \<and> Task_findById s' i = Some t'
      \<and> title t' = (if truthy (b ''title'') then b ''title'' else title t)
      \<and> status t' = (if truthy (b ''status'') then b ''status'' else status t)
      \<and> priority t' = (if truthy (b ''priority'') then b ''priority'' else priority t)
      \<and> description t' = (if b ''description'' = Undefined then description t else b ''description'')
      \<and> dueDate t' = (if b ''dueDate'' = Undefined then dueDate t else b ''dueDate'')
      \<and> updatedAt t' = now
      \<and> (b ''title'' = Undefined \<and> b ''description'' = Undefined \<and> b ''status'' = Undefined
          \<and> b ''priority'' = Undefined \<and> b ''dueDate'' = Undefined
            \<longrightarrow> t' = t\<lparr>updatedAt := now\<rparr>)"
proof -
  let ?u = "updateDoc b t now"
  let ?t = "applyUpd ?u t"
  let ?s = "updateFirst (\<lambda>d. tid d = i) (applyUpd ?u) s"
  have f: "Task_findById ?s i = Some ?t"
    using assms(1) by (simp add: findById_updateFirst applyUpd_frame)
  have r: "updateTask V s c i b now = (Sent 200 (Some ?t), ?s)"
    using assms f by (simp add: updateTask_def Task_findByIdAndUpdate_def Let_def)
  have p1: "title ?t = (if truthy (b ''title'') then b ''title'' else title t)"
    by (simp add: applyUpd_def updateDoc_def jsor_def)
  have p2: "status ?t = (if truthy (b ''status'') then b ''status'' else status t)"
    by (simp add: applyUpd_def updateDoc_def jsor_def)
  have p3: "priority ?t = (if truthy (b ''priority'') then b ''priority'' else priority t)"
    by (simp add: applyUpd_def updateDoc_def jsor_def)
  have p4: "description ?t = (if b ''description'' = Undefined then description t else b ''description'')"
    by (simp add: applyUpd_def updateDoc_def ifDefined_def)
  have p5: "dueDate ?t = (if b ''dueDate'' = Undefined then dueDate t else b ''dueDate'')"
    by (simp add: applyUpd_def updateDoc_def ifDefined_def)
  have p6: "updatedAt ?t = now" by (simp add: applyUpd_def updateDoc_def)
  have p8: "b ''title'' = Undefined \<and> b ''description'' = Undefined \<and> b ''status'' = Undefined
          \<and> b ''priority'' = Undefined \<and> b ''dueDate'' = Undefined
            \<longrightarrow> ?t = t\<lparr>updatedAt := now\<rparr>"
    by (simp add: applyUpd_def updateDoc_def ifDefined_def jsor_def)
  show ?thesis
    apply (rule exI [where x = ?t])
    apply (rule exI [where x = ?s])
    using r f p1 p2 p3 p4 p5 p6 p8 apply (intro conjI)
            apply assumption+
    done
qed

theorem update_partial_semantics_witness:
  "Task_findById sampleStore 7 = Some milkTask \<and> user milkTask = 1
 \<and> anyUpdate (updateDoc clearBody milkTask 99)
 \<and> clearBody ''title'' = JStr [] \<and> clearBody ''description'' = JStr []
 \<and> clearBody ''dueDate'' = Null \<and> clearBody ''status'' = Undefined
 \<and> fst (updateTask anyUpdate sampleStore 1 7 clearBody 99) =
      Sent 200 (Some (milkTask\<lparr>description := JStr [], dueDate := Null, updatedAt := 99\<rparr>))
 \<and> title (milkTask\<lparr>description := JStr [], dueDate := Null, updatedAt := 99\<rparr>) = title milkTask
 \<and> status (milkTask\<lparr>description := JStr [], dueDate := Null, updatedAt := 99\<rparr>) = status milkTask
 \<and> description (milkTask\<lparr>description := JStr [], dueDate := Null, updatedAt := 99\<rparr>) = JStr []
 \<and> dueDate (milkTask\<lparr>description := JStr [], dueDate := Null, updatedAt := 99\<rparr>) = Null"
proof -
  let ?t = "milkTask\<lparr>description := JStr [], dueDate := Null, updatedAt := 99\<rparr>"
  have h1: "Task_findById sampleStore 7 = Some milkTask" by (rule sample_findById)
  have h2: "user milkTask = 1" by (simp add: milkTask_def)
  have h3: "anyUpdate (updateDoc clearBody milkTask 99)" by (simp add: anyUpdate_def)
  have b: "clearBody ''title'' = JStr []" "clearBody ''description'' = JStr []"
    "clearBody ''dueDate'' = Null" "clearBody ''status'' = Undefined"
    by (simp_all add: clearBody_def emptyBody_def)
  from update_partial_semantics [where V = anyUpdate and b = clearBody and now = 99, OF h1 h2 h3]
  obtain t' s' where
    r: "updateTask anyUpdate sampleStore 1 7 clearBody 99 = (Sent 200 (Some t'), s')"
    and p1: "title t' = (if truthy (clearBody ''title'') then clearBody ''title'' else title milkTask)"
    and p2: "status t' = (if truthy (clearBody ''status'') then clearBody ''status'' else status milkTask)"
    and p4: "description t' = (if clearBody ''description'' = Undefined then description milkTask
               else clearBody ''description'')"
    and p5: "dueDate t' = (if clearBody ''dueDate'' = Undefined then dueDate milkTask
               else clearBody ''dueDate'')"
    by blast
  from r have t': "t' = ?t" unfolding sample_update by simp
  have e: "fst (updateTask anyUpdate sampleStore 1 7 clearBody 99) = Sent 200 (Some ?t)"
    unfolding sample_update by simp
  have q1: "title ?t = title milkTask" using p1 unfolding t' by (simp add: b)
  have q2: "status ?t = status milkTask" using p2 unfolding t' by (simp add: b)
  have q4: "description ?t = JStr []" using p4 unfolding t' by (simp add: b)
  have q5: "dueDate ?t = Null" using p5 unfolding t' by (simp add: b)
  from h1 h2 h3 b e q1 q2 q4 q5 show ?thesis by (intro conjI)
qed

subsection \<open>Creation\<close>

text \<open>
  Claim C4. \<open>createTask\<close> throws \<open>Please add a title\<close> with status 400 whenever the title
  is falsy, in particular absent, \<open>null\<close> or the empty string, and the store is then
  unchanged. Otherwise it sends status 201 with the created task, which is appended to
  the store, belongs to the caller, has status \<open>pending\<close>, both timestamps set to the
  clock reading, and the four fields of the body.
\<close>

theorem create_validation:
  "(\<not> truthy (b ''title'') \<longrightarrow>
      createTask s c b now oid = (Threw 400 (Error ''Please add a title''), s))
 \<and> (b ''title'' \<in> {Undefined, Null, JStr []} \<longrightarrow>
      createTask s c b now oid = (Threw 400 (Error ''Please add a title''), s))
 \<and> (truthy (b ''title'') \<longrightarrow>
      (\<exists>t. createTask s c b now oid = (Sent 201 t, s @ [t])
         \<and> tid t = oid \<and> user t = c \<and> status t = JStr ''pending''
         \<and> createdAt t = now \<and> updatedAt t = now
         \<and> title t = b ''title'' \<and> description t = b ''description''
         \<and> priority t = b ''priority'' \<and> dueDate t = b ''dueDate''))"
proof (intro conjI impI)
  assume "\<not> truthy (b ''title'')"
  then show "createTask s c b now oid = (Threw 400 (Error ''Please add a title''), s)"
    by (simp add: createTask_def)
next
  assume "b ''title'' \<in> {Undefined, Null, JStr []}"
  then have "\<not> truthy (b ''title'')" by auto
  then show "createTask s c b now oid = (Threw 400 (Error ''Please add a title''), s)"
    by (simp add: createTask_def)
next
  assume t: "truthy (b ''title'')"
  let ?t = "\<lparr>tid = oid, user = c, title = b ''title'', description = b ''description'',
            status = JStr ''pending'', priority = b ''priority'', dueDate = b ''dueDate'',
            createdAt = now, updatedAt = now\<rparr>"
  have "createTask s c b now oid = (Sent 201 ?t, s @ [?t])"
    using t by (simp add: createTask_def Task_create_def Let_def)
  then show "\<exists>t. createTask s c b now oid = (Sent 201 t, s @ [t])
         \<and> tid t = oid \<and> user t = c \<and> status t = JStr ''pending''
         \<and> createdAt t = now \<and> updatedAt t = now
         \<and> title t = b ''title'' \<and> description t = b ''description''
         \<and> priority t = b ''priority'' \<and> dueDate t = b ''dueDate''"
    by (intro exI [where x = ?t]) simp
qed

theorem create_validation_witness:
  "emptyBody ''title'' = Undefined
 \<and> createTask sampleStore 1 emptyBody 99 9 = (Threw 400 (Error ''Please add a title''), sampleStore)
 \<and> clearBody ''title'' = JStr []
 \<and> createTask sampleStore 1 clearBody 99 9 = (Threw 400 (Error ''Please add a title''), sampleStore)
 \<and> truthy (milkBody ''title'')
 \<and> fst (createTask sampleStore 3 milkBody 99 9) =
      Sent 201 \<lparr>tid = 9, user = 3, title = JStr ''Buy milk'', description = Undefined,
                 status = JStr ''pending'', priority = Undefined, dueDate = Undefined,
                 createdAt = 99, updatedAt = 99\<rparr>
 \<and> length (snd (createTask sampleStore 3 milkBody 99 9)) = 3"
proof -
  note E = create_validation [of emptyBody sampleStore 1 99 9]
  note C = create_validation [of clearBody sampleStore 1 99 9]
  note M = create_validation [of milkBody sampleStore 3 99 9]
  have b1: "emptyBody ''title'' = Undefined" by (simp add: emptyBody_def)
  have b2: "clearBody ''title'' = JStr []" by (simp add: clearBody_def emptyBody_def)
  have b3: "truthy (milkBody ''title'')" by (simp add: milkBody_def emptyBody_def)
  have w1: "createTask sampleStore 1 emptyBody 99 9
      = (Threw 400 (Error ''Please add a title''), sampleStore)"
    by (rule E [THEN conjunct2, THEN conjunct1, THEN mp]) (simp add: b1)
  have w2: "createTask sampleStore 1 clearBody 99 9
      = (Threw 400 (Error ''Please add a title''), sampleStore)"
    by (rule C [THEN conjunct1, THEN mp]) (simp add: b2)
  from M [THEN conjunct2, THEN conjunct2, THEN mp, OF b3] obtain t where
    r: "createTask sampleStore 3 milkBody 99 9 = (Sent 201 t, sampleStore @ [t])"
    and u: "user t = 3" and st: "status t = JStr ''pending''"
    by blast
  have ev: "fst (createTask sampleStore 3 milkBody 99 9) =
      Sent 201 \<lparr>tid = 9, user = 3, title = JStr ''Buy milk'', description = Undefined,
                 status = JStr ''pending'', priority = Undefined, dueDate = Undefined,
                 createdAt = 99, updatedAt = 99\<rparr>"
    by (simp add: createTask_def Task_create_def Let_def milkBody_def emptyBody_def)
  have ln: "length (snd (createTask sampleStore 3 milkBody 99 9)) = 3"
    unfolding r by (simp add: sampleStore_def)
  from b1 w1 b2 w2 b3 ev ln show ?thesis by (intro conjI)
qed

subsection \<open>Toggle\<close>

text \<open>
  Claim C5, with the part on \<open>updatedAt\<close> as the code has it. For a task of the caller
  whose status is \<open>pending\<close> or \<open>completed\<close>, a toggle sends and stores the task with the
  other status and with \<open>updatedAt\<close> set to the clock reading \<open>n1\<close>; a second toggle at
  \<open>n2\<close> gives back the original status, and the task is then the original one but for
  \<open>updatedAt = n2\<close>. \<open>updatedAt\<close> strictly increases on each toggle when the clock
  readings do: \<open>updatedAt t < n1 < n2\<close>.
\<close>

theorem toggle_involution:
  assumes "Task_findById s i = Some t" and "user t = c"
    and "status t \<in> {JStr ''pending'', JStr ''completed''}"
  shows "\<exists>t1 s1 t2 s2.
       toggleTaskStatus s c i n1 = (Sent 200 t1, s1) \<and> Task_findById s1 i = Some t1
     \<and> status t1 = (if status t = JStr ''pending'' then JStr ''completed'' else JStr ''pending'')
     \<and> status t1 \<noteq> status t \<and> status t1 \<in> {JStr ''pending'', JStr ''completed''}
     \<and> updatedAt t1 = n1
     \<and> toggleTaskStatus s1 c i n2 = (Sent 200 t2, s2) \<and> Task_findById s2 i = Some t2
     \<and> status t2 = status t \<and> updatedAt t2 = n2 \<and> t2 = t\<lparr>updatedAt := n2\<rparr>
     \<and> (updatedAt t < n1 \<and> n1 < n2 \<longrightarrow> updatedAt t < updatedAt t1 \<and> updatedAt t1 < updatedAt t2)"
proof -
  let ?f = "\<lambda>v. if v = JStr ''pending'' then JStr ''completed'' else JStr ''pending''"
  let ?t1 = "t\<lparr>status := ?f (status t), updatedAt := n1\<rparr>"
  let ?s1 = "Task_save ?t1 s"
  let ?t2 = "?t1\<lparr>status := ?f (status ?t1), updatedAt := n2\<rparr>"
  let ?s2 = "Task_save ?t2 ?s1"
  have i: "tid t = i" using assms(1) by (simp add: findById_Some)
  have r1: "toggleTaskStatus s c i n1 = (Sent 200 ?t1, ?s1)"
    using assms(1,2) by (rule toggle_owner)
  have f1: "Task_findById ?s1 i = Some ?t1"
    using assms(1) i by (simp add: findById_save)
  have u1: "user ?t1 = c" using assms(2) by simp
  have r2: "toggleTaskStatus ?s1 c i n2 = (Sent 200 ?t2, ?s2)"
    using f1 u1 by (rule toggle_owner)
  have f2: "Task_findById ?s2 i = Some ?t2"
    using f1 i by (simp add: findById_save)
  have st1: "status ?t1 = ?f (status t)" by simp
  have ne: "status ?t1 \<noteq> status t" using assms(3) by auto
  have en: "status ?t1 \<in> {JStr ''pending'', JStr ''completed''}" by simp
  have a1: "updatedAt ?t1 = n1" by simp
  have st2: "status ?t2 = status t" using assms(3) by auto
  have a2: "updatedAt ?t2 = n2" by simp
  have eq: "?t2 = t\<lparr>updatedAt := n2\<rparr>" using st2 by simp
  have inc: "updatedAt t < n1 \<and> n1 < n2 \<longrightarrow> updatedAt t < updatedAt ?t1 \<and> updatedAt ?t1 < updatedAt ?t2"
    by simp
  show ?thesis
    apply (rule exI [where x = ?t1])
    apply (rule exI [where x = ?s1])
    apply (rule exI [where x = ?t2])
    apply (rule exI [where x = ?s2])
    using r1 f1 st1 ne en a1 r2 f2 st2 a2 eq inc apply (intro conjI)
               apply assumption+
    done
qed

theorem toggle_involution_witness:
  "Task_findById sampleStore 7 = Some milkTask \<and> user milkTask = 1
 \<and> status milkTask = JStr ''pending''
 \<and> toggleTaskStatus sampleStore 1 7 99 =
      (Sent 200 (milkTask\<lparr>status := JStr ''completed'', updatedAt := 99\<rparr>),
       [milkTask\<lparr>status := JStr ''completed'', updatedAt := 99\<rparr>, dogTask])
 \<and> fst (toggleTaskStatus [milkTask\<lparr>status := JStr ''completed'', updatedAt := 99\<rparr>, dogTask] 1 7 120)
      = Sent 200 (milkTask\<lparr>updatedAt := 120\<rparr>)"
proof -
  have h1: "Task_findById sampleStore 7 = Some milkTask" by (rule sample_findById)
  have h2: "user milkTask = 1" by (simp add: milkTask_def)
  have st: "status milkTask = JStr ''pending''" by (simp add: milkTask_def)
  have h3: "status milkTask \<in> {JStr ''pending'', JStr ''completed''}" by (simp add: st)
  have e1: "toggleTaskStatus sampleStore 1 7 99 =
      (Sent 200 (milkTask\<lparr>status := JStr ''completed'', updatedAt := 99\<rparr>),
       [milkTask\<lparr>status := JStr ''completed'', updatedAt := 99\<rparr>, dogTask])"
    by (rule sample_toggle)
  from toggle_involution [OF h1 h2 h3, of 99 120] obtain t1 s1 t2 s2 where
    r1: "toggleTaskStatus sampleStore 1 7 99 = (Sent 200 t1, s1)"
    and r2: "toggleTaskStatus s1 1 7 120 = (Sent 200 t2, s2)"
    and eq: "t2 = milkTask\<lparr>updatedAt := 120\<rparr>"
    by blast
  from r1 [unfolded e1] have s1: "s1 = [milkTask\<lparr>status := JStr ''completed'', updatedAt := 99\<rparr>, dogTask]"
    by (elim Pair_inject) (rule sym)
  have e2: "fst (toggleTaskStatus [milkTask\<lparr>status := JStr ''completed'', updatedAt := 99\<rparr>, dogTask] 1 7 120)
      = Sent 200 (milkTask\<lparr>updatedAt := 120\<rparr>)"
    using r2 unfolding s1 eq by simp
  from h1 h2 st e1 e2 show ?thesis by (intro conjI)
qed

text \<open>
  \<open>Date.now()\<close> counts milliseconds, and nothing in \<open>toggleTaskStatus\<close> compares it with
  the stored value: two toggles of the same task at the clock reading 100 leave
  \<open>updatedAt\<close> at 100 after the second one, which is not a strict increase.
\<close>

theorem toggle_updatedAt_counterexample:
  "toggleTaskStatus sampleStore 1 7 100 =
      (Sent 200 (milkTask\<lparr>status := JStr ''completed'', updatedAt := 100\<rparr>),
       [milkTask\<lparr>status := JStr ''completed'', updatedAt := 100\<rparr>, dogTask])
 \<and> toggleTaskStatus [milkTask\<lparr>status := JStr ''completed'', updatedAt := 100\<rparr>, dogTask] 1 7 100 =
      (Sent 200 (milkTask\<lparr>updatedAt := 100\<rparr>), [milkTask\<lparr>updatedAt := 100\<rparr>, dogTask])
 \<and> \<not> updatedAt (milkTask\<lparr>status := JStr ''completed'', updatedAt := 100\<rparr>)
        < updatedAt (milkTask\<lparr>updatedAt := 100\<rparr>)"
  unfolding sample_toggle by simp

subsection \<open>Pagination\<close>




subsection \<open>Statistics\<close>

text \<open>
  Claim C7. \<open>getTaskStats\<close> always sends, for the caller's tasks only, their number, the
  number of those with status \<open>pending\<close> and the number of those with status \<open>completed\<close>.
  A status that none of the caller's tasks has is counted 0, and when every task of the
  caller has one of the two statuses the total is the sum of the two counts.
\<close>

theorem stats_counts:
  "\<exists>r. getTaskStats s c = Sent 200 r
     \<and> total r = length (filter (\<lambda>t. user t = c) s)
     \<and> pending r = length (filter (\<lambda>t. user t = c \<and> status t = JStr ''pending'') s)
     \<and> completed r = length (filter (\<lambda>t. user t = c \<and> status t = JStr ''completed'') s)
     \<and> ((\<forall>t \<in> set s. user t = c \<longrightarrow> status t \<noteq> JStr ''pending'') \<longrightarrow> pending r = 0)
     \<and> ((\<forall>t \<in> set s. user t = c \<longrightarrow> status t \<noteq> JStr ''completed'') \<longrightarrow> completed r = 0)
     \<and> ((\<forall>t \<in> set s. user t = c \<longrightarrow> status t = JStr ''pending'' \<or> status t = JStr ''completed'')
          \<longrightarrow> total r = pending r + completed r)"
proof -
  let ?ts = "filter (\<lambda>t. user t = c) s"
  let ?p = "length (filter (\<lambda>t. user t = c \<and> status t = JStr ''pending'') s)"
  let ?d = "length (filter (\<lambda>t. user t = c \<and> status t = JStr ''completed'') s)"
  let ?r = "\<lparr>total = length ?ts, pending = ?p, completed = ?d\<rparr>"
  have r: "getTaskStats s c = Sent 200 ?r"
    by (simp add: getTaskStats_def Let_def countOf_aggregate)
  have z1: "(\<forall>t \<in> set s. user t = c \<longrightarrow> status t \<noteq> JStr ''pending'') \<longrightarrow> ?p = 0"
    by (simp add: filter_empty_conv)
  have z2: "(\<forall>t \<in> set s. user t = c \<longrightarrow> status t \<noteq> JStr ''completed'') \<longrightarrow> ?d = 0"
    by (simp add: filter_empty_conv)
  have sum: "(\<forall>t \<in> set s. user t = c \<longrightarrow> status t = JStr ''pending'' \<or> status t = JStr ''completed'')
          \<longrightarrow> length ?ts = ?p + ?d"
  proof
    assume a: "\<forall>t \<in> set s. user t = c \<longrightarrow> status t = JStr ''pending'' \<or> status t = JStr ''completed''"
    then have "\<forall>t \<in> set ?ts. status t = JStr ''pending'' \<or> status t = JStr ''completed''"
      by simp
    moreover have "JStr ''pending'' \<noteq> JStr ''completed''" by simp
    ultimately have "length ?ts = length (filter (\<lambda>t. status t = JStr ''pending'') ?ts)
        + length (filter (\<lambda>t. status t = JStr ''completed'') ?ts)"
      by (rule length_two_statuses)
    then show "length ?ts = ?p + ?d" by (simp only: filter_user_status)
  qed
  show ?thesis
    apply (rule exI [where x = ?r])
    using r z1 z2 sum apply simp
    done
qed

theorem stats_counts_witness:
  "getTaskStats sampleStore 1 = Sent 200 \<lparr>total = 1, pending = 1, completed = 0\<rparr>
 \<and> total \<lparr>total = 1, pending = 1, completed = 0\<rparr>
     = pending \<lparr>total = 1, pending = 1, completed = 0\<rparr>
       + completed \<lparr>total = 1, pending = 1, completed = 0\<rparr>"
proof -
  have h1: "\<forall>t \<in> set sampleStore. user t = 1 \<longrightarrow> status t \<noteq> JStr ''completed''"
    by (simp add: sample_defs)
  have h2: "\<forall>t \<in> set sampleStore. user t = 1 \<longrightarrow>
      status t = JStr ''pending'' \<or> status t = JStr ''completed''"
    by (simp add: sample_defs)
  have n: "length (filter (\<lambda>t. user t = 1) sampleStore) = 1"
    "length (filter (\<lambda>t. user t = 1 \<and> status t = JStr ''pending'') sampleStore) = 1"
    by (simp_all add: sample_defs)
  from stats_counts [of sampleStore 1] obtain r where
    r: "getTaskStats sampleStore 1 = Sent 200 r"
    and t: "total r = length (filter (\<lambda>t. user t = 1) sampleStore)"
    and p: "pending r = length (filter (\<lambda>t. user t = 1 \<and> status t = JStr ''pending'') sampleStore)"
    and c: "(\<forall>t \<in> set sampleStore. user t = 1 \<longrightarrow> status t \<noteq> JStr ''completed'') \<longrightarrow> completed r = 0"
    and s: "(\<forall>t \<in> set sampleStore. user t = 1 \<longrightarrow>
               status t = JStr ''pending'' \<or> status t = JStr ''completed'')
             \<longrightarrow> total r = pending r + completed r"
    by blast
  from c h1 have c0: "completed r = 0" by (rule mp)
  from s h2 have sum: "total r = pending r + completed r" by (rule mp)
  have "r = \<lparr>total = total r, pending = pending r, completed = completed r\<rparr>" by simp
  then have req: "r = \<lparr>total = 1, pending = 1, completed = 0\<rparr>"
    by (simp only: t p c0 n)
  from r sum show ?thesis unfolding req by (intro conjI)
qed

subsection \<open>Status and priority filters\<close>

text \<open>
  Claim C8. In the list operation the filter has a \<open>status\<close> key exactly when the query
  parameter is present, not empty and not \<open>all\<close>, and then the key holds the parameter;
  the same for \<open>priority\<close>. When the parameter is absent, empty or \<open>all\<close>, whether a task
  matches does not depend on its status, respectively its priority.
\<close>

theorem status_priority_filters:
  "(f_status (buildFilter c q) = Some v \<longleftrightarrow> q ''status'' = Some v \<and> v \<noteq> [] \<and> v \<noteq> ''all'')
 \<and> (f_priority (buildFilter c q) = Some w \<longleftrightarrow> q ''priority'' = Some w \<and> w \<noteq> [] \<and> w \<noteq> ''all'')
 \<and> (q ''status'' \<in> {None, Some [], Some ''all''} \<longrightarrow>
       matches rx (buildFilter c q) (t\<lparr>status := x\<rparr>) = matches rx (buildFilter c q) t)
 \<and> (q ''priority'' \<in> {None, Some [], Some ''all''} \<longrightarrow>
       matches rx (buildFilter c q) (t\<lparr>priority := y\<rparr>) = matches rx (buildFilter c q) t)"
proof (intro conjI impI)
  show "f_status (buildFilter c q) = Some v \<longleftrightarrow> q ''status'' = Some v \<and> v \<noteq> [] \<and> v \<noteq> ''all''"
  proof (cases "q ''status''")
    case None
    then show ?thesis by (simp add: f_status_buildFilter)
  next
    case (Some a)
    show ?thesis
    proof (cases "a \<noteq> [] \<and> a \<noteq> ''all''")
      case True
      with Some show ?thesis unfolding f_status_buildFilter by (simp del: list.simps) blast
    next
      case False
      with Some show ?thesis unfolding f_status_buildFilter by (simp del: list.simps) blast
    qed
  qed
next
  show "f_priority (buildFilter c q) = Some w \<longleftrightarrow> q ''priority'' = Some w \<and> w \<noteq> [] \<and> w \<noteq> ''all''"
  proof (cases "q ''priority''")
    case None
    then show ?thesis by (simp add: f_priority_buildFilter)
  next
    case (Some a)
    show ?thesis
    proof (cases "a \<noteq> [] \<and> a \<noteq> ''all''")
      case True
      with Some show ?thesis unfolding f_priority_buildFilter by (simp del: list.simps) blast
    next
      case False
      with Some show ?thesis unfolding f_priority_buildFilter by (simp del: list.simps) blast
    qed
  qed
next
  assume "q ''status'' \<in> {None, Some [], Some ''all''}"
  then have "f_status (buildFilter c q) = None"
    unfolding f_status_buildFilter by (cases "q ''status''") simp_all
  then show "matches rx (buildFilter c q) (t\<lparr>status := x\<rparr>) = matches rx (buildFilter c q) t"
    by (rule matches_status_free)
next
  assume "q ''priority'' \<in> {None, Some [], Some ''all''}"
  then have "f_priority (buildFilter c q) = None"
    unfolding f_priority_buildFilter by (cases "q ''priority''") simp_all
  then show "matches rx (buildFilter c q) (t\<lparr>priority := y\<rparr>) = matches rx (buildFilter c q) t"
    by (rule matches_priority_free)
qed

theorem status_priority_filters_witness:
  "zeroLimitQuery ''status'' = Some ''pending''
 \<and> f_status (buildFilter 1 zeroLimitQuery) = Some ''pending''
 \<and> zeroLimitQuery ''priority'' = Some ''all''
 \<and> matches exactText (buildFilter 1 zeroLimitQuery) (milkTask\<lparr>priority := JStr ''low''\<rparr>)
     = matches exactText (buildFilter 1 zeroLimitQuery) milkTask
 \<and> noQuery ''status'' = None
 \<and> matches exactText (buildFilter 1 noQuery) (milkTask\<lparr>status := JStr ''completed''\<rparr>)
     = matches exactText (buildFilter 1 noQuery) milkTask"
proof -
  note Z = status_priority_filters [where q = zeroLimitQuery and c = 1 and rx = exactText
      and t = milkTask and v = "''pending''" and y = "JStr ''low''"]
  note N = status_priority_filters [where q = noQuery and c = 1 and rx = exactText
      and t = milkTask and x = "JStr ''completed''"]
  have q1: "zeroLimitQuery ''status'' = Some ''pending''" by (simp add: zeroLimitQuery_def)
  have q2: "zeroLimitQuery ''priority'' = Some ''all''" by (simp add: zeroLimitQuery_def)
  have q3: "noQuery ''status'' = None" by (simp add: noQuery_def)
  have w1: "f_status (buildFilter 1 zeroLimitQuery) = Some ''pending''"
    by (rule Z [THEN conjunct1, THEN iffD2]) (simp add: q1)
  have w2: "matches exactText (buildFilter 1 zeroLimitQuery) (milkTask\<lparr>priority := JStr ''low''\<rparr>)
     = matches exactText (buildFilter 1 zeroLimitQuery) milkTask"
    by (rule Z [THEN conjunct2, THEN conjunct2, THEN conjunct2, THEN mp]) (simp add: q2)
  have w3: "matches exactText (buildFilter 1 noQuery) (milkTask\<lparr>status := JStr ''completed''\<rparr>)
     = matches exactText (buildFilter 1 noQuery) milkTask"
    by (rule N [THEN conjunct2, THEN conjunct2, THEN conjunct1, THEN mp]) (simp add: q3)
  from q1 w1 q2 w2 q3 w3 show ?thesis by (intro conjI)
qed

subsection \<open>The owner is never reassigned\<close>

text \<open>
  Claim C9. \<open>updateTask\<close> never changes an owner: for every store, caller, id, body and
  clock reading the ids and owners of the stored tasks are the same after the call as
  before, whatever the body holds under \<open>user\<close>; and a task sent back has the owner
  of the task that was found, the caller.
\<close>

theorem owner_immutable:
  "map (\<lambda>t. (tid t, user t)) (snd (updateTask V s c i b now)) = map (\<lambda>t. (tid t, user t)) s
 \<and> (\<forall>k t' t. fst (updateTask V s c i b now) = Sent k (Some t') \<and> Task_findById s i = Some t
        \<longrightarrow> user t' = user t \<and> user t' = c)"
proof (intro conjI allI impI)
  show "map (\<lambda>t. (tid t, user t)) (snd (updateTask V s c i b now)) = map (\<lambda>t. (tid t, user t)) s"
  proof (cases "Task_findById s i")
    case None
    then show ?thesis by (simp add: updateTask_def)
  next
    case (Some t)
    then show ?thesis
      by (simp add: updateTask_def Task_findByIdAndUpdate_def Let_def owners_updateFirst
          applyUpd_frame)
  qed
next
  fix k t' t
  assume a: "fst (updateTask V s c i b now) = Sent k (Some t') \<and> Task_findById s i = Some t"
  then have f: "Task_findById s i = Some t" by (rule conjunct2)
  from a have r: "fst (updateTask V s c i b now) = Sent k (Some t')" by (rule conjunct1)
  have own: "user t = c" using r f by (simp add: updateTask_def split: if_splits)
  have "Task_findById (updateFirst (\<lambda>d. tid d = i) (applyUpd (updateDoc b t now)) s) i
          = Some (applyUpd (updateDoc b t now) t)"
    using f by (simp add: findById_updateFirst applyUpd_frame)
  with r f own have "t' = applyUpd (updateDoc b t now) t"
    by (simp add: updateTask_def Task_findByIdAndUpdate_def Let_def split: if_splits)
  then show "user t' = user t" "user t' = c" using own by (simp_all add: applyUpd_frame)
qed

theorem owner_immutable_witness:
  "clearBody ''user'' = JNum 2
 \<and> map (\<lambda>t. (tid t, user t)) (snd (updateTask anyUpdate sampleStore 1 7 clearBody 99))
     = [(7, 1), (8, 2)]
 \<and> fst (updateTask anyUpdate sampleStore 1 7 clearBody 99) =
      Sent 200 (Some (milkTask\<lparr>description := JStr [], dueDate := Null, updatedAt := 99\<rparr>))
 \<and> Task_findById sampleStore 7 = Some milkTask
 \<and> user (milkTask\<lparr>description := JStr [], dueDate := Null, updatedAt := 99\<rparr>) = 1"
proof -
  note O = owner_immutable [of anyUpdate sampleStore 1 7 clearBody 99]
  have b: "clearBody ''user'' = JNum 2" by (simp add: clearBody_def)
  have m: "map (\<lambda>t. (tid t, user t)) sampleStore = [(7, 1), (8, 2)]"
    by (simp add: sample_defs)
  have w1: "map (\<lambda>t. (tid t, user t)) (snd (updateTask anyUpdate sampleStore 1 7 clearBody 99))
     = [(7, 1), (8, 2)]"
    using O [THEN conjunct1] by (simp only: m)
  have e: "fst (updateTask anyUpdate sampleStore 1 7 clearBody 99) =
      Sent 200 (Some (milkTask\<lparr>description := JStr [], dueDate := Null, updatedAt := 99\<rparr>))"
    unfolding sample_update by simp
  have f: "Task_findById sampleStore 7 = Some milkTask" by (rule sample_findById)
  have w2: "user (milkTask\<lparr>description := JStr [], dueDate := Null, updatedAt := 99\<rparr>) = 1"
    by (rule O [THEN conjunct2, THEN spec, THEN spec, THEN spec, THEN mp, THEN conjunct2])
       (rule conjI [OF e f])
  from b w1 e f w2 show ?thesis by (intro conjI)
qed

subsection \<open>Defaults of page and limit\<close>

text \<open>
  Claim C10. A \<open>page\<close> or \<open>limit\<close> parameter that \<open>parseInt\<close> reads as NaN or as 0, and in
  particular an absent one, gives the default 1, respectively 10. So the limit is never
  0, and in every listing sent \<open>totalPages\<close> is the integer \<open>n\<close> with
  \<open>n - 1 < totalTasks / limit \<le> n\<close>, the ceiling of a division by a number that is not 0.
\<close>

theorem limit_never_zero:
  "(parseInt (toStringParam (q ''page'')) \<in> {None, Some 0} \<longrightarrow> pageOf q = 1)
 \<and> (parseInt (toStringParam (q ''limit'')) \<in> {None, Some 0} \<longrightarrow> limitOf q = 10)
 \<and> (q ''page'' = None \<longrightarrow> pageOf q = 1)
 \<and> (q ''limit'' = None \<longrightarrow> limitOf q = 10)
 \<and> limitOf q \<noteq> 0
 \<and> (\<forall>k r. getTasks rx key s c q = Sent k r \<longrightarrow>
       real (totalTasks r) / real_of_int (limitOf q) \<le> real_of_int (totalPages r)
     \<and> real_of_int (totalPages r) - 1 < real (totalTasks r) / real_of_int (limitOf q))"
proof (intro conjI allI impI)
  assume "parseInt (toStringParam (q ''page'')) \<in> {None, Some 0}"
  then show "pageOf q = 1" by (rule pageOf_default)
next
  assume "parseInt (toStringParam (q ''limit'')) \<in> {None, Some 0}"
  then show "limitOf q = 10" by (rule limitOf_default)
next
  assume "q ''page'' = None"
  then show "pageOf q = 1" by (intro pageOf_default absent_param)
next
  assume "q ''limit'' = None"
  then show "limitOf q = 10" by (intro limitOf_default absent_param)
next
  show "limitOf q \<noteq> 0" by (rule limitOf_nonzero)
next
  fix k r assume g: "getTasks rx key s c q = Sent k r"
  have tp: "totalPages r = \<lceil>real (totalTasks r) / real_of_int (limitOf q)\<rceil>"
    using getTasks_Sent(3) [OF g] by (simp only: totalPagesOf_def)
  show "real (totalTasks r) / real_of_int (limitOf q) \<le> real_of_int (totalPages r)"
    unfolding tp by (rule le_of_int_ceiling)
  show "real_of_int (totalPages r) - 1 < real (totalTasks r) / real_of_int (limitOf q)"
    unfolding tp using ceiling_correct [of "real (totalTasks r) / real_of_int (limitOf q)"]
    by (rule conjunct1)
qed

theorem limit_never_zero_witness:
  "parseInt (toStringParam (zeroLimitQuery ''page'')) = None
 \<and> parseInt (toStringParam (zeroLimitQuery ''limit'')) = Some 0
 \<and> pageOf zeroLimitQuery = 1 \<and> limitOf zeroLimitQuery = 10
 \<and> noQuery ''page'' = None \<and> noQuery ''limit'' = None
 \<and> pageOf noQuery = 1 \<and> limitOf noQuery = 10
 \<and> getTasks exactText byCreatedAt sampleStore 1 noQuery
     = Sent 200 \<lparr>tasks = [milkTask], currentPage = 1, totalPages = 1, totalTasks = 1\<rparr>
 \<and> real (1::nat) / real_of_int (limitOf noQuery) \<le> real_of_int 1"
proof -
  note T = limit_never_zero [of zeroLimitQuery exactText byCreatedAt sampleStore 1]
  note N = limit_never_zero [of noQuery exactText byCreatedAt sampleStore 1]
  have p: "parseInt (toStringParam (zeroLimitQuery ''page'')) = None"
    by (simp add: zeroLimitQuery_def parse_defs)
  have l: "parseInt (toStringParam (zeroLimitQuery ''limit'')) = Some 0"
    by (simp add: zeroLimitQuery_def parse_defs)
  have n1: "noQuery ''page'' = None" and n2: "noQuery ''limit'' = None"
    by (simp_all add: noQuery_def)
  have w1: "pageOf zeroLimitQuery = 1"
    by (rule T [THEN conjunct1, THEN mp]) (simp add: p)
  have w2: "limitOf zeroLimitQuery = 10"
    by (rule T [THEN conjunct2, THEN conjunct1, THEN mp]) (simp add: l)
  have w3: "pageOf noQuery = 1"
    by (rule N [THEN conjunct2, THEN conjunct2, THEN conjunct1, THEN mp]) (rule n1)
  have w4: "limitOf noQuery = 10"
    by (rule N [THEN conjunct2, THEN conjunct2, THEN conjunct2, THEN conjunct1, THEN mp]) (rule n2)
  have w5: "real (1::nat) / real_of_int (limitOf noQuery) \<le> real_of_int 1"
    using N [THEN conjunct2, THEN conjunct2, THEN conjunct2, THEN conjunct2, THEN conjunct2,
        THEN spec, THEN spec, THEN mp, OF sample_list, THEN conjunct1]
    by simp
  from p l w1 w2 n1 n2 w3 w4 sample_list w5 show ?thesis by (intro conjI)
qed

end
